theory Spec2Isabelle
  imports Main
begin

section \<open>The class-like node and its heritage clauses\<close>

text \<open>
  A class-like node is seen through what \<^verbatim>\<open>ImplementsClauseableNode.ts\<close> reads of it:
  the full text of its source file, its heritage clauses (each with its keyword token and
  its types) and the start of its first open-brace token. Positions are offsets into the
  full text. A wrapped node is identified by where it starts, so two types with the same
  text are still two nodes.
\<close>

datatype SyntaxKind = ExtendsKeyword | ImplementsKeyword

record ExpressionWithTypeArguments =
  typeStart :: nat
  typeText :: string

record HeritageClause =
  token :: SyntaxKind
  clauseStart :: nat
  clauseTypes :: "ExpressionWithTypeArguments list"

record ClassNode =
  fullText :: string
  heritageClauses :: "HeritageClause list"
  openBraceToken :: "nat option"

datatype error =
    InvalidOperationError string
  | ArgumentNullOrWhitespaceError string
  | InvalidIndexError int int
  | TreeMismatchError
  | ChildOfKindNotFoundError

text \<open>\<^verbatim>\<open>string | string[]\<close>, the argument of the add and insert overloads.\<close>

datatype Texts = Single string | Multiple "string list"

text \<open>\<^verbatim>\<open>ExpressionWithTypeArguments | ExpressionWithTypeArguments[]\<close>; indexing an array
  out of range gives \<^verbatim>\<open>undefined\<close> in the source language.\<close>

datatype Returned =
    OneNode ExpressionWithTypeArguments
  | ManyNodes "ExpressionWithTypeArguments list"
  | Undefined

text \<open>\<^verbatim>\<open>ExpressionWithTypeArguments | number\<close>, the argument of the remove overloads.\<close>

datatype NodeOrIndex = ByNode ExpressionWithTypeArguments | ByIndex int

text \<open>What \<^verbatim>\<open>removeChildren\<close> is given: the heritage-clause syntax list (with its
  children) or one heritage clause.\<close>

datatype Child = SyntaxListChild "HeritageClause list" | HeritageClauseChild HeritageClause

subsection \<open>Text helpers\<close>

text \<open>
  A text is a sequence of code units, and a \<open>char\<close> is a code unit below 256. Among
  those the whitespace class of the regular expression \<^verbatim>\<open>/\s/\<close>, which is also what
  trimming a string takes off, has the space, the tab, the line feed, the vertical tab, the
  form feed, the carriage return and the no-break space U+00A0.
\<close>

definition isWhitespace :: "char \<Rightarrow> bool" where
  "isWhitespace c \<longleftrightarrow>
     c \<in> {CHR '' '', CHR 0x09, CHR 0x0A, CHR 0x0B, CHR 0x0C, CHR 0x0D, CHR 0xA0}"

fun join :: "string \<Rightarrow> string list \<Rightarrow> string" where
  "join sep [] = []"
| "join sep [x] = x"
| "join sep (x # y # ys) = x @ sep @ join sep (y # ys)"

definition keywordText :: "SyntaxKind \<Rightarrow> string" where
  "keywordText k = (case k of ExtendsKeyword \<Rightarrow> ''extends'' | ImplementsKeyword \<Rightarrow> ''implements'')"

definition typeEnd :: "ExpressionWithTypeArguments \<Rightarrow> nat" where
  "typeEnd t = typeStart t + length (typeText t)"

definition clauseEnd :: "HeritageClause \<Rightarrow> nat" where
  "clauseEnd c =
     (if clauseTypes c = [] then clauseStart c + length (keywordText (token c))
      else typeEnd (last (clauseTypes c)))"

subsection \<open>Reading the node\<close>

definition getHeritageClauses :: "ClassNode \<Rightarrow> HeritageClause list" where
  "getHeritageClauses n = heritageClauses n"

text \<open>\<^verbatim>\<open>ArrayUtils.find(heritageClauses, c => c.compilerNode.token === ImplementsKeyword)\<close>\<close>

definition getImplementsHeritageClause :: "HeritageClause list \<Rightarrow> HeritageClause option" where
  "getImplementsHeritageClause hs = find (\<lambda>c. token c = ImplementsKeyword) hs"

definition getImplementsOf :: "HeritageClause list \<Rightarrow> ExpressionWithTypeArguments list" where
  "getImplementsOf hs =
     (case getImplementsHeritageClause hs of None \<Rightarrow> [] | Some c \<Rightarrow> clauseTypes c)"

definition getImplements :: "ClassNode \<Rightarrow> ExpressionWithTypeArguments list" where
  "getImplements n = getImplementsOf (getHeritageClauses n)"

text \<open>\<^verbatim>\<open>getFirstChildByKindOrThrow(SyntaxKind.OpenBraceToken).getStart()\<close>\<close>

definition getOpenBraceStartOrThrow :: "ClassNode \<Rightarrow> error + nat" where
  "getOpenBraceStartOrThrow n =
     (case openBraceToken n of None \<Rightarrow> Inl ChildOfKindNotFoundError | Some p \<Rightarrow> Inr p)"

section \<open>The manipulation helpers\<close>

text \<open>
  \<^verbatim>\<open>verifyAndGetIndex\<close>, \<^verbatim>\<open>getNodeOrNodesToReturn\<close>,
  \<^verbatim>\<open>insertIntoCommaSeparatedNodes\<close>, \<^verbatim>\<open>insertIntoCreatableSyntaxList\<close>,
  \<^verbatim>\<open>removeChildren\<close>, \<^verbatim>\<open>removeCommaSeparatedChild\<close> and
  \<^verbatim>\<open>errors.throwIfNotStringOrWhitespace\<close> are imported by the mixin from the manipulation
  and errors modules. Each edit changes the full text and the tree together: the positions
  behind an edit move with it.
\<close>

subsection \<open>Editing the text and moving positions\<close>

definition shiftFrom :: "nat \<Rightarrow> nat \<Rightarrow> nat \<Rightarrow> nat" where
  "shiftFrom p k x = (if p \<le> x then x + k else x)"

definition shiftType :: "nat \<Rightarrow> nat \<Rightarrow> ExpressionWithTypeArguments \<Rightarrow> ExpressionWithTypeArguments" where
  "shiftType p k t = t\<lparr>typeStart := shiftFrom p k (typeStart t)\<rparr>"

definition shiftClause :: "nat \<Rightarrow> nat \<Rightarrow> HeritageClause \<Rightarrow> HeritageClause" where
  "shiftClause p k c =
     c\<lparr>clauseStart := shiftFrom p k (clauseStart c),
       clauseTypes := map (shiftType p k) (clauseTypes c)\<rparr>"

definition insertText :: "nat \<Rightarrow> string \<Rightarrow> ClassNode \<Rightarrow> ClassNode" where
  "insertText p s n =
     n\<lparr>fullText := take p (fullText n) @ s @ drop p (fullText n),
       heritageClauses := map (shiftClause p (length s)) (heritageClauses n),
       openBraceToken := map_option (shiftFrom p (length s)) (openBraceToken n)\<rparr>"

definition pullBack :: "nat \<Rightarrow> nat \<Rightarrow> nat \<Rightarrow> nat" where
  "pullBack s e x = (if e \<le> x then x - (e - s) else x)"

definition pullType :: "nat \<Rightarrow> nat \<Rightarrow> ExpressionWithTypeArguments \<Rightarrow> ExpressionWithTypeArguments" where
  "pullType s e t = t\<lparr>typeStart := pullBack s e (typeStart t)\<rparr>"

definition pullClause :: "nat \<Rightarrow> nat \<Rightarrow> HeritageClause \<Rightarrow> HeritageClause" where
  "pullClause s e c =
     c\<lparr>clauseStart := pullBack s e (clauseStart c),
       clauseTypes := map (pullType s e) (clauseTypes c)\<rparr>"

text \<open>Removing the text from \<open>s\<close> up to \<open>e\<close>; the nodes inside are taken out of the
  tree by the caller first.\<close>

definition removeText :: "nat \<Rightarrow> nat \<Rightarrow> ClassNode \<Rightarrow> ClassNode" where
  "removeText s e n =
     n\<lparr>fullText := take s (fullText n) @ drop e (fullText n),
       heritageClauses := map (pullClause s e) (heritageClauses n),
       openBraceToken := map_option (pullBack s e) (openBraceToken n)\<rparr>"

definition precedingSpaces :: "string \<Rightarrow> nat \<Rightarrow> nat" where
  "precedingSpaces t p = length (takeWhile (\<lambda>c. c = CHR '' '') (rev (take p t)))"

definition followingSpaces :: "string \<Rightarrow> nat \<Rightarrow> nat" where
  "followingSpaces t p = length (takeWhile (\<lambda>c. c = CHR '' '') (drop p t))"

subsection \<open>Index validation and the returned nodes\<close>

text \<open>
  Modelled from the spec: \<^verbatim>\<open>verifyAndGetIndex(index, length)\<close> of the manipulation module
  is the index validation. An index from 0 through \<open>length\<close> is accepted as it is. A
  negative index counts from the end: it stands for \<open>length + index\<close> and is accepted
  when that is not negative. Any other index raises an error.
\<close>

definition verifyAndGetIndex :: "int \<Rightarrow> int \<Rightarrow> error + nat" where
  "verifyAndGetIndex index len =
     (let newIndex = (if index < 0 then len + index else index)
      in if newIndex < 0 then Inl (InvalidIndexError index len)
         else if index > len then Inl (InvalidIndexError index len)
         else Inr (nat newIndex))"

text \<open>
  Modelled from the spec: \<^verbatim>\<open>getNodeOrNodesToReturn(nodes, index, length)\<close> of the
  manipulation module gives the one node at \<open>index\<close> for the singular overloads (which
  pass length 0) and the \<open>length\<close> nodes from \<open>index\<close> on for the plural ones.
\<close>

definition getNodeOrNodesToReturn ::
  "ExpressionWithTypeArguments list \<Rightarrow> nat \<Rightarrow> nat \<Rightarrow> Returned" where
  "getNodeOrNodesToReturn nodes index len =
     (if 0 < len then ManyNodes (take len (drop index nodes))
      else if index < length nodes then OneNode (nodes ! index)
      else Undefined)"

text \<open>
  Modelled from the spec: \<^verbatim>\<open>errors.throwIfNotStringOrWhitespace(value, name)\<close> of the
  errors module throws when the string is empty or has only whitespace characters.
\<close>

definition throwIfNotStringOrWhitespace :: "string \<Rightarrow> string \<Rightarrow> error option" where
  "throwIfNotStringOrWhitespace v name =
     (if list_all isWhitespace v then Some (ArgumentNullOrWhitespaceError name) else None)"

subsection \<open>Reading inserted text\<close>

text \<open>
  Modelled from the spec: the host parser's reading of inserted text, as the tree shows it
  after an insertion. Types stand between commas; a comma inside angle brackets, round
  brackets, square brackets or braces belongs to the type around it, and the \<^verbatim>\<open>>\<close> of
  an arrow \<^verbatim>\<open>=>\<close> closes nothing. A type is the text between two such commas without the
  whitespace around it; where nothing but whitespace stands, no type is read. \<open>base\<close> and
  \<open>off\<close> are where the text starts in the file.
\<close>

definition opensBracket :: "char \<Rightarrow> bool" where
  "opensBracket c \<longleftrightarrow> c \<in> {CHR ''<'', CHR ''('', CHR ''['', CHR ''{''}"

definition closesBracket :: "char \<Rightarrow> bool" where
  "closesBracket c \<longleftrightarrow> c \<in> {CHR ''>'', CHR '')'', CHR '']'', CHR ''}''}"

text \<open>The scanner's state: how many brackets are open, and whether the last character
  was \<^verbatim>\<open>=\<close>.\<close>

fun scanStep :: "nat \<times> bool \<Rightarrow> char \<Rightarrow> nat \<times> bool" where
  "scanStep (depth, afterEquals) c =
     (if opensBracket c then depth + 1
      else if closesBracket c \<and> \<not> (c = CHR ''>'' \<and> afterEquals) then depth - 1
      else depth,
      c = CHR ''='')"

fun splitOnComma :: "nat \<times> bool \<Rightarrow> string \<Rightarrow> string list" where
  "splitOnComma st [] = [[]]"
| "splitOnComma st (c # cs) =
     (if c = CHR '','' \<and> fst st = 0 then [] # splitOnComma (scanStep st c) cs
      else (case splitOnComma (scanStep st c) cs of
              [] \<Rightarrow> [[c]]
            | x # xs \<Rightarrow> (c # x) # xs))"

definition trimRight :: "string \<Rightarrow> string" where
  "trimRight s = rev (dropWhile isWhitespace (rev s))"

fun parseTypes :: "nat \<Rightarrow> string list \<Rightarrow> ExpressionWithTypeArguments list" where
  "parseTypes off [] = []"
| "parseTypes off (piece # rest) =
     (let lead = length (takeWhile isWhitespace piece);
          txt = trimRight (dropWhile isWhitespace piece);
          more = parseTypes (off + length piece + 1) rest
      in if txt = [] then more else \<lparr>typeStart = off + lead, typeText = txt\<rparr> # more)"

definition parseHeritageClause :: "nat \<Rightarrow> string \<Rightarrow> HeritageClause list" where
  "parseHeritageClause base s =
     (let lead = length (takeWhile isWhitespace s);
          rest = dropWhile isWhitespace s
      in if take 10 rest = ''implements''
         then [\<lparr>token = ImplementsKeyword, clauseStart = base + lead,
                clauseTypes = parseTypes (base + lead + 10)
                                (splitOnComma (0, False) (drop 10 rest))\<rparr>]
         else if take 7 rest = ''extends''
         then [\<lparr>token = ExtendsKeyword, clauseStart = base + lead,
                clauseTypes = parseTypes (base + lead + 7)
                                (splitOnComma (0, False) (drop 7 rest))\<rparr>]
         else [])"

subsection \<open>Inserting into the tree\<close>

text \<open>
  Modelled from the spec: \<^verbatim>\<open>insertIntoCommaSeparatedNodes\<close> of the manipulation module
  is the comma-separated list splicing. The new texts, joined by a comma and a space, go in
  front of the node now at \<open>insertIndex\<close> (followed by a separator), or behind the last
  node (led by a separator) when \<open>insertIndex\<close> is the number of nodes. The list then
  holds, at \<open>insertIndex\<close>, the types that the inserted text reads as. When those are not
  one for each new text, the new tree does not match the edit and the helper throws; the
  model then leaves the node as it was.
\<close>

definition insertIntoCommaSeparatedNodes ::
  "ClassNode \<Rightarrow> ExpressionWithTypeArguments list \<Rightarrow> nat \<Rightarrow> string list \<Rightarrow> error + ClassNode" where
  "insertIntoCommaSeparatedNodes parent currentNodes insertIndex newTexts =
     (if insertIndex < length currentNodes \<or> (insertIndex = length currentNodes \<and> currentNodes \<noteq> [])
      then
        let before = (insertIndex < length currentNodes);
            p = (if before then typeStart (currentNodes ! insertIndex)
                 else typeEnd (currentNodes ! (insertIndex - 1)));
            joined = join '', '' newTexts;
            ins = (if before then joined @ '', '' else '', '' @ joined);
            new = parseTypes (if before then p else p + 2) (splitOnComma (0, False) joined);
            moved = map (shiftType p (length ins)) currentNodes;
            n' = insertText p ins parent
        in if length new \<noteq> length newTexts then Inl TreeMismatchError
           else Inr (n'\<lparr>heritageClauses :=
                          map (\<lambda>c. if clauseTypes c = moved
                                   then c\<lparr>clauseTypes := take insertIndex moved @ new
                                                          @ drop insertIndex moved\<rparr>
                                   else c)
                              (heritageClauses n')\<rparr>)
      else Inr parent)"

text \<open>
  Modelled from the spec: \<^verbatim>\<open>insertIntoCreatableSyntaxList\<close> of the manipulation module
  is the insertion with syntax-list creation when absent. The new text goes into the full
  text at \<open>insertPos\<close>; the heritage clause it reads as becomes the child at \<open>childIndex\<close>
  of the given syntax list, or the only child of a new syntax list when none is given.
\<close>

definition insertIntoCreatableSyntaxList ::
  "ClassNode \<Rightarrow> nat \<Rightarrow> string \<Rightarrow> HeritageClause list option \<Rightarrow> nat \<Rightarrow> nat \<Rightarrow> ClassNode" where
  "insertIntoCreatableSyntaxList parent insertPos newText syntaxList childIndex insertItemsCount =
     (let n' = insertText insertPos newText parent;
          items = take insertItemsCount (parseHeritageClause insertPos newText)
      in n'\<lparr>heritageClauses :=
               (case syntaxList of
                  None \<Rightarrow> items
                | Some _ \<Rightarrow> take childIndex (heritageClauses n') @ items
                            @ drop childIndex (heritageClauses n'))\<rparr>)"

subsection \<open>Removing from the tree\<close>

fun childClauses :: "Child \<Rightarrow> HeritageClause list" where
  "childClauses (SyntaxListChild cs) = cs"
| "childClauses (HeritageClauseChild c) = [c]"

text \<open>
  Modelled from the spec: \<^verbatim>\<open>removeChildren\<close> of the manipulation module is the
  child removal with trivia handling. The text from the start of the first child to the end
  of the last goes, with the spaces in front of it when \<open>removePrecedingSpaces\<close> is set,
  and the children leave the tree.
\<close>

definition removeChildren :: "ClassNode \<Rightarrow> Child list \<Rightarrow> bool \<Rightarrow> ClassNode" where
  "removeChildren parent children removePrecedingSpaces =
     (let removed = concat (map childClauses children)
      in if removed = [] then parent
         else
           let s0 = clauseStart (hd removed);
               e = clauseEnd (last removed);
               s = (if removePrecedingSpaces then s0 - precedingSpaces (fullText parent) s0 else s0)
           in removeText s e
                (parent\<lparr>heritageClauses :=
                          filter (\<lambda>c. c \<notin> set removed) (heritageClauses parent)\<rparr>))"

text \<open>
  Modelled from the spec: \<^verbatim>\<open>removeCommaSeparatedChild\<close> of the manipulation module
  removes one child of a comma-separated list with the comma that separates it: the comma
  behind it, or the comma in front of it when the child is the last of several. The spaces
  in front go when \<open>removePrecedingSpaces\<close> is set, the spaces behind when the child was
  the first; \<open>removalStart\<close> and \<open>removalEnd\<close> are the two ends of the text that goes.
  A node that is no type of this class-like node is not this node's to edit.
\<close>

definition removalStart ::
  "string \<Rightarrow> ExpressionWithTypeArguments list \<Rightarrow> ExpressionWithTypeArguments \<Rightarrow> bool \<Rightarrow> nat" where
  "removalStart t siblings child removePrecedingSpaces =
     (let isFirst = (hd siblings = child);
          isLast = (last siblings = child);
          s0 = (if isLast \<and> \<not> isFirst
                then typeStart child
                     - (length (takeWhile (\<lambda>x. x \<noteq> CHR '','') (rev (take (typeStart child) t))) + 1)
                else typeStart child)
      in if removePrecedingSpaces then s0 - precedingSpaces t s0 else s0)"

definition removalEnd ::
  "string \<Rightarrow> ExpressionWithTypeArguments list \<Rightarrow> ExpressionWithTypeArguments \<Rightarrow> nat" where
  "removalEnd t siblings child =
     (let isFirst = (hd siblings = child);
          isLast = (last siblings = child);
          e0 = (if isLast then typeEnd child
                else typeEnd child
                     + length (takeWhile (\<lambda>x. x \<noteq> CHR '','') (drop (typeEnd child) t)) + 1)
      in if isFirst then e0 + followingSpaces t e0 else e0)"

definition removeCommaSeparatedChild ::
  "ClassNode \<Rightarrow> ExpressionWithTypeArguments \<Rightarrow> bool \<Rightarrow> ClassNode" where
  "removeCommaSeparatedChild parent child removePrecedingSpaces =
     (case find (\<lambda>c. child \<in> set (clauseTypes c)) (heritageClauses parent) of
        None \<Rightarrow> parent
      | Some c \<Rightarrow>
          let siblings = clauseTypes c
          in removeText
               (removalStart (fullText parent) siblings child removePrecedingSpaces)
               (removalEnd (fullText parent) siblings child)
               (parent\<lparr>heritageClauses :=
                         map (\<lambda>d. if d = c then d\<lparr>clauseTypes := removeAll child siblings\<rparr> else d)
                             (heritageClauses parent)\<rparr>))"

section \<open>The mixin: \<^verbatim>\<open>ImplementsClauseableNode\<close>\<close>

text \<open>
  Every method gives its outcome and the node as it is afterwards. A throw is \<open>Inl\<close>, and
  the node then comes back as it was.
\<close>

definition isLastSpace :: "string \<Rightarrow> nat \<Rightarrow> bool" where
  "isLastSpace t openBraceStart \<longleftrightarrow>
     0 < openBraceStart \<and> openBraceStart - 1 < length t \<and> isWhitespace (t ! (openBraceStart - 1))"

definition implementsInsertText :: "string \<Rightarrow> nat \<Rightarrow> string list \<Rightarrow> string" where
  "implementsInsertText t openBraceStart texts =
     (let insertText = ''implements '' @ join '', '' texts @ '' ''
      in if \<not> isLastSpace t openBraceStart then '' '' @ insertText else insertText)"

text \<open>The body of \<^verbatim>\<open>insertImplements\<close> from the index validation on, with \<open>texts\<close>
  already an array and \<open>len\<close> the length the first line computed.\<close>

definition insertImplementsTexts ::
  "int \<Rightarrow> string list \<Rightarrow> nat \<Rightarrow> ClassNode \<Rightarrow> (error + Returned) \<times> ClassNode" where
  "insertImplementsTexts index texts len n =
     (let heritageClauses = getHeritageClauses n;
          implementsTypes = getImplementsOf heritageClauses
      in case verifyAndGetIndex index (int (length implementsTypes)) of
           Inl e \<Rightarrow> (Inl e, n)
         | Inr index' \<Rightarrow>
             if length implementsTypes > 0 then
               (case insertIntoCommaSeparatedNodes n implementsTypes index' texts of
                  Inl e \<Rightarrow> (Inl e, n)
                | Inr n' \<Rightarrow> (Inr (getNodeOrNodesToReturn (getImplements n') index' len), n'))
             else
               (case getOpenBraceStartOrThrow n of
                  Inl e \<Rightarrow> (Inl e, n)
                | Inr openBraceStart \<Rightarrow>
                    let insertText = implementsInsertText (fullText n) openBraceStart texts;
                        n' = insertIntoCreatableSyntaxList n openBraceStart insertText
                               (if length heritageClauses = 0 then None else Some heritageClauses)
                               1 1
                    in (Inr (getNodeOrNodesToReturn (getImplements n') index' len), n')))"

definition insertImplements ::
  "int \<Rightarrow> Texts \<Rightarrow> ClassNode \<Rightarrow> (error + Returned) \<times> ClassNode" where
  "insertImplements index texts n =
     (let len = (case texts of Multiple ts \<Rightarrow> length ts | Single _ \<Rightarrow> 0)
      in case texts of
           Single s \<Rightarrow>
             (case throwIfNotStringOrWhitespace s ''texts'' of
                Some e \<Rightarrow> (Inl e, n)
              | None \<Rightarrow> insertImplementsTexts index [s] len n)
         | Multiple ts \<Rightarrow>
             if length ts = 0 then (Inr (ManyNodes []), n)
             else insertImplementsTexts index ts len n)"

definition addImplements :: "Texts \<Rightarrow> ClassNode \<Rightarrow> (error + Returned) \<times> ClassNode" where
  "addImplements text' n = insertImplements (int (length (getImplements n))) text' n"

text \<open>\<^verbatim>\<open>getImplementsFromIndex\<close>, the inner function of \<^verbatim>\<open>removeImplements\<close>.\<close>

definition getImplementsFromIndex ::
  "ExpressionWithTypeArguments list \<Rightarrow> int \<Rightarrow> error + ExpressionWithTypeArguments" where
  "getImplementsFromIndex implementsNodes index =
     (case verifyAndGetIndex index (int (length implementsNodes) - 1) of
        Inl e \<Rightarrow> Inl e
      | Inr i \<Rightarrow> Inr (implementsNodes ! i))"

text \<open>\<^verbatim>\<open>typeof implementsNodeOrIndex === "number" ? getImplementsFromIndex(implementsNodeOrIndex)
  : implementsNodeOrIndex\<close>\<close>

definition implementsNodeToRemove ::
  "ExpressionWithTypeArguments list \<Rightarrow> NodeOrIndex \<Rightarrow> error + ExpressionWithTypeArguments" where
  "implementsNodeToRemove implementsNodes implementsNodeOrIndex =
     (case implementsNodeOrIndex of
        ByIndex i \<Rightarrow> getImplementsFromIndex implementsNodes i
      | ByNode x \<Rightarrow> Inr x)"

text \<open>\<open>Inr ()\<close> is \<^verbatim>\<open>return this\<close>: the node itself, whose state is the second
  component. With one implements type the implements heritage clause exists, so the
  non-null assertion of the source holds there.\<close>

definition removeImplements ::
  "NodeOrIndex \<Rightarrow> ClassNode \<Rightarrow> (error + unit) \<times> ClassNode" where
  "removeImplements implementsNodeOrIndex n =
     (let implementsNodes = getImplements n
      in if length implementsNodes = 0
         then (Inl (InvalidOperationError ''Cannot remove an implements when none exist.''), n)
         else
           case implementsNodeToRemove implementsNodes implementsNodeOrIndex of
             Inl e \<Rightarrow> (Inl e, n)
           | Inr toRemove \<Rightarrow>
               if length implementsNodes = 1 then
                 let heritageClauses = getHeritageClauses n
                 in if length heritageClauses = 1
                    then (Inr (), removeChildren n [SyntaxListChild heritageClauses] True)
                    else (case getImplementsHeritageClause heritageClauses of
                            Some c \<Rightarrow> (Inr (), removeChildren n [HeritageClauseChild c] True)
                          | None \<Rightarrow> (Inr (), n))
               else
                 (Inr (), removeCommaSeparatedChild n toRemove (toRemove \<noteq> hd implementsNodes)))"

section \<open>The structure printer: \<^verbatim>\<open>GetAccessorDeclarationStructurePrinter\<close>\<close>

subsection \<open>The writer\<close>

text \<open>
  Modelled from the spec: the \<^verbatim>\<open>CodeBlockWriter\<close> is the text written so far, and
  printing is string concatenation. \<^verbatim>\<open>write\<close> (here \<open>writeText\<close>) appends; \<^verbatim>\<open>spaceIfLastNot\<close> appends
  a space unless the last character is one; \<^verbatim>\<open>inlineBlock\<close> writes an open brace, the
  block's own output on indented lines of its own, and a close brace.
\<close>

type_synonym CodeBlockWriter = string

definition writeText :: "string \<Rightarrow> CodeBlockWriter \<Rightarrow> CodeBlockWriter" where
  "writeText s w = w @ s"

definition spaceIfLastNot :: "CodeBlockWriter \<Rightarrow> CodeBlockWriter" where
  "spaceIfLastNot w = (if w \<noteq> [] \<and> last w = CHR '' '' then w else writeText '' '' w)"

fun indentLines :: "bool \<Rightarrow> string \<Rightarrow> string" where
  "indentLines atLineStart [] = []"
| "indentLines atLineStart (c # cs) =
     (if c = CHR 0x0A then c # indentLines True cs
      else if atLineStart then ''    '' @ c # indentLines False cs
      else c # indentLines False cs)"

definition newLineIfLastNot :: "CodeBlockWriter \<Rightarrow> CodeBlockWriter" where
  "newLineIfLastNot w = (if w \<noteq> [] \<and> last w = CHR 0x0A then w else writeText [CHR 0x0A] w)"

definition inlineBlock ::
  "(CodeBlockWriter \<Rightarrow> CodeBlockWriter) \<Rightarrow> CodeBlockWriter \<Rightarrow> CodeBlockWriter" where
  "inlineBlock block w =
     writeText ''}'' (newLineIfLastNot (writeText (indentLines True (block [])) (writeText [CHR 0x0A] (writeText ''{'' w))))"

subsection \<open>The structure, the factory and the printer\<close>

text \<open>
  The fields of \<^verbatim>\<open>GetAccessorDeclarationStructure\<close> that \<^verbatim>\<open>printText\<close> reads. What a
  documentation comment, a decorator, a type parameter and a parameter are is the business
  of their own printers, so their types are left open here.
\<close>

record ('doc, 'dec, 'tp, 'par) GetAccessorDeclarationStructure =
  name :: string
  isAbstract :: bool
  docs :: "'doc list"
  decorators :: "'dec list"
  typeParameters :: "'tp list"
  parameters :: "'par list"

record PrinterOptions =
  isAmbient :: bool

text \<open>
  Modelled from the spec: the \<^verbatim>\<open>StructurePrinterFactory\<close> and the printers it hands out
  are external collaborators with the contract "given a structure, produce a text
  fragment". Each field is one of them, named by the factory method and the printer method
  that \<^verbatim>\<open>printText\<close> calls; calling it writes its fragment.
\<close>

record ('doc, 'dec, 'tp, 'par) StructurePrinterFactory =
  forJSDoc_printDocs :: "'doc list \<Rightarrow> string"
  forDecorator_printTexts :: "'dec list \<Rightarrow> string"
  forModifierableNode_printText :: "('doc, 'dec, 'tp, 'par) GetAccessorDeclarationStructure \<Rightarrow> string"
  forTypeParameterDeclaration_printTextsWithBrackets :: "'tp list \<Rightarrow> string"
  forParameterDeclaration_printTexts :: "'par list \<Rightarrow> string"
  forReturnTypedNode_printText :: "('doc, 'dec, 'tp, 'par) GetAccessorDeclarationStructure \<Rightarrow> string"
  forBodyText_printText ::
    "PrinterOptions \<Rightarrow> ('doc, 'dec, 'tp, 'par) GetAccessorDeclarationStructure \<Rightarrow> string"

definition printText ::
  "('doc, 'dec, 'tp, 'par) StructurePrinterFactory \<Rightarrow> PrinterOptions \<Rightarrow> CodeBlockWriter
   \<Rightarrow> ('doc, 'dec, 'tp, 'par) GetAccessorDeclarationStructure \<Rightarrow> CodeBlockWriter" where
  "printText factory options writer structure =
     (let w1 = writeText (forJSDoc_printDocs factory (docs structure)) writer;
          w2 = writeText (forDecorator_printTexts factory (decorators structure)) w1;
          w3 = writeText (forModifierableNode_printText factory structure) w2;
          w4 = writeText (''get '' @ name structure) w3;
          w5 = writeText (forTypeParameterDeclaration_printTextsWithBrackets factory
                        (typeParameters structure)) w4;
          w6 = writeText ''('' w5;
          w7 = writeText (forParameterDeclaration_printTexts factory (parameters structure)) w6;
          w8 = writeText '')'' w7;
          w9 = writeText (forReturnTypedNode_printText factory structure) w8
      in if isAmbient options \<or> isAbstract structure
         then writeText '';'' w9
         else inlineBlock (\<lambda>w. writeText (forBodyText_printText factory options structure) w)
                (spaceIfLastNot w9))"

section \<open>Texts that read as one type\<close>




section \<open>Example nodes\<close>

text \<open>\<^verbatim>\<open>class C {}\<close>\<close>

definition classPlain :: ClassNode where
  "classPlain = \<lparr>fullText = ''class C {}'', heritageClauses = [], openBraceToken = Some 8\<rparr>"

text \<open>\<^verbatim>\<open>class C extends B{}\<close>\<close>

definition classExtends :: ClassNode where
  "classExtends =
     \<lparr>fullText = ''class C extends B{}'',
      heritageClauses =
        [\<lparr>token = ExtendsKeyword, clauseStart = 8,
          clauseTypes = [\<lparr>typeStart = 16, typeText = ''B''\<rparr>]\<rparr>],
      openBraceToken = Some 17\<rparr>"

text \<open>\<^verbatim>\<open>class C{}\<close> with a no-break space, U+00A0, between the name and the brace.\<close>

definition classNoBreakSpace :: ClassNode where
  "classNoBreakSpace =
     \<lparr>fullText = ''class C'' @ [CHR 0xA0] @ ''{}'', heritageClauses = [], openBraceToken = Some 8\<rparr>"

text \<open>\<^verbatim>\<open>class C implements A {}\<close>\<close>

definition classImplementsOne :: ClassNode where
  "classImplementsOne =
     \<lparr>fullText = ''class C implements A {}'',
      heritageClauses =
        [\<lparr>token = ImplementsKeyword, clauseStart = 8,
          clauseTypes = [\<lparr>typeStart = 19, typeText = ''A''\<rparr>]\<rparr>],
      openBraceToken = Some 21\<rparr>"

text \<open>\<^verbatim>\<open>class C extends B implements A {}\<close>\<close>

definition classExtendsImplements :: ClassNode where
  "classExtendsImplements =
     \<lparr>fullText = ''class C extends B implements A {}'',
      heritageClauses =
        [\<lparr>token = ExtendsKeyword, clauseStart = 8,
          clauseTypes = [\<lparr>typeStart = 16, typeText = ''B''\<rparr>]\<rparr>,
         \<lparr>token = ImplementsKeyword, clauseStart = 18,
          clauseTypes = [\<lparr>typeStart = 29, typeText = ''A''\<rparr>]\<rparr>],
      openBraceToken = Some 31\<rparr>"

text \<open>\<^verbatim>\<open>class C implements A, Bb, Cc {}\<close>\<close>

definition classImplementsThree :: ClassNode where
  "classImplementsThree =
     \<lparr>fullText = ''class C implements A, Bb, Cc {}'',
      heritageClauses =
        [\<lparr>token = ImplementsKeyword, clauseStart = 8,
          clauseTypes = [\<lparr>typeStart = 19, typeText = ''A''\<rparr>,
                         \<lparr>typeStart = 22, typeText = ''Bb''\<rparr>,
                         \<lparr>typeStart = 26, typeText = ''Cc''\<rparr>]\<rparr>],
      openBraceToken = Some 29\<rparr>"

text \<open>A factory whose printers write a documentation comment or a decorator per line,
  \<^verbatim>\<open>abstract\<close> as the only modifier, type parameters in angle brackets, parameters
  between commas, one return type and one body; and two getters for it.\<close>

definition exampleFactory :: "(string, string, string, string) StructurePrinterFactory" where
  "exampleFactory =
     \<lparr>forJSDoc_printDocs = (\<lambda>ds. concat (map (\<lambda>d. ''/** '' @ d @ '' */'' @ [CHR 0x0A]) ds)),
      forDecorator_printTexts = (\<lambda>ds. concat (map (\<lambda>d. ''@'' @ d @ [CHR 0x0A]) ds)),
      forModifierableNode_printText = (\<lambda>s. if isAbstract s then ''abstract '' else []),
      forTypeParameterDeclaration_printTextsWithBrackets =
        (\<lambda>ts. if ts = [] then [] else ''<'' @ join '', '' ts @ ''>''),
      forParameterDeclaration_printTexts = (\<lambda>ps. join '', '' ps),
      forReturnTypedNode_printText = (\<lambda>s. '': number''),
      forBodyText_printText = (\<lambda>opts s. ''return 1;'')\<rparr>"

definition exampleGetter :: "(string, string, string, string) GetAccessorDeclarationStructure" where
  "exampleGetter =
     \<lparr>name = ''x'', isAbstract = False, docs = [''d''], decorators = [''dec''],
      typeParameters = [], parameters = []\<rparr>"

definition exampleAbstractGetter ::
  "(string, string, string, string) GetAccessorDeclarationStructure" where
  "exampleAbstractGetter =
     \<lparr>name = ''x'', isAbstract = True, docs = [], decorators = [],
      typeParameters = [''T''], parameters = []\<rparr>"

section \<open>Reading the implements clause through an edit\<close>

text \<open>An edit that keeps every clause's keyword keeps which clause is the implements
  clause.\<close>

lemma find_token_map:
  assumes "\<And>c. token (g c) = token c"
  shows "find (\<lambda>c. token c = k) (map g hs) = map_option g (find (\<lambda>c. token c = k) hs)"
  using assms by (induction hs) auto

section \<open>What the helpers throw\<close>

lemma verifyAndGetIndex_throws:
  "verifyAndGetIndex index len = Inl e \<Longrightarrow> e = InvalidIndexError index len"
  by (auto simp: verifyAndGetIndex_def Let_def split: if_splits)

lemma verifyAndGetIndex_accepts:
  "verifyAndGetIndex index len
     = (if - len \<le> index \<and> index \<le> len
        then Inr (nat (if index < 0 then len + index else index))
        else Inl (InvalidIndexError index len))"
  by (auto simp: verifyAndGetIndex_def Let_def)

lemma insertIntoCommaSeparatedNodes_throws:
  "insertIntoCommaSeparatedNodes n currentNodes i ts = Inl e \<Longrightarrow> e = TreeMismatchError"
  by (auto simp: insertIntoCommaSeparatedNodes_def Let_def split: if_splits)

lemma insertImplementsTexts_throws:
  assumes "fst (insertImplementsTexts index ts len n) = Inl e"
  shows "e = InvalidIndexError index (int (length (getImplements n)))
         \<or> e = TreeMismatchError \<or> e = ChildOfKindNotFoundError"
proof (cases "verifyAndGetIndex index (int (length (getImplements n)))")
  case (Inl e')
  then show ?thesis
    using assms verifyAndGetIndex_throws [OF Inl]
    by (simp add: insertImplementsTexts_def getImplements_def Let_def)
next
  case (Inr i)
  show ?thesis
  proof (cases "getImplements n = []")
    case True
    then show ?thesis
      using assms Inr
      by (auto simp: insertImplementsTexts_def getImplements_def getOpenBraceStartOrThrow_def
          Let_def split: option.splits)
  next
    case False
    then show ?thesis
      using assms Inr insertIntoCommaSeparatedNodes_throws [of n "getImplements n" i ts]
      by (auto simp: insertImplementsTexts_def getImplements_def Let_def split: sum.splits)
  qed
qed

section \<open>Argument checks of \<^verbatim>\<open>insertImplements\<close>\<close>

text \<open>
  C9. For every node and every index, \<^verbatim>\<open>insertImplements\<close> called with an empty array
  returns an empty array and performs no edit: the node, and so its source text and its
  implements list, are exactly as before the call.
\<close>

theorem insertImplements_empty_array:
  "insertImplements index (Multiple []) n = (Inr (ManyNodes []), n)
   \<and> fullText (snd (insertImplements index (Multiple []) n)) = fullText n
   \<and> getImplements (snd (insertImplements index (Multiple []) n)) = getImplements n"
  by (simp add: insertImplements_def)

lemma insertImplementsTexts_not_argument_error:
  "fst (insertImplementsTexts index ts len n) \<noteq> Inl (ArgumentNullOrWhitespaceError nm)"
  using insertImplementsTexts_throws [of index ts len n "ArgumentNullOrWhitespaceError nm"]
  by auto

text \<open>
  C10. For every node, the string overload of \<^verbatim>\<open>insertImplements\<close> (and hence of
  \<^verbatim>\<open>addImplements\<close>) throws the precondition error when the string is empty or has
  only whitespace, with the node as it was; a string with a non-whitespace character passes
  the check and goes on to the insertion, which never throws that error.
\<close>

theorem insertImplements_string_precondition:
  "(list_all isWhitespace s \<longrightarrow>
      insertImplements index (Single s) n = (Inl (ArgumentNullOrWhitespaceError ''texts''), n)
      \<and> addImplements (Single s) n = (Inl (ArgumentNullOrWhitespaceError ''texts''), n))
   \<and> (\<not> list_all isWhitespace s \<longrightarrow>
      insertImplements index (Single s) n = insertImplementsTexts index [s] 0 n
      \<and> fst (insertImplements index (Single s) n) \<noteq> Inl (ArgumentNullOrWhitespaceError nm)
      \<and> fst (addImplements (Single s) n) \<noteq> Inl (ArgumentNullOrWhitespaceError nm))"
  using insertImplementsTexts_not_argument_error
  by (simp add: insertImplements_def addImplements_def throwIfNotStringOrWhitespace_def)

theorem insertImplements_string_precondition_witness:
  "insertImplements 0 (Single '' '') classPlain = (Inl (ArgumentNullOrWhitespaceError ''texts''), classPlain)
   \<and> insertImplements 0 (Single []) classPlain = (Inl (ArgumentNullOrWhitespaceError ''texts''), classPlain)
   \<and> fst (insertImplements 0 (Single ''A'') classPlain) \<noteq> Inl (ArgumentNullOrWhitespaceError ''texts'')"
proof -
  have blank: "list_all isWhitespace '' ''" and empty: "list_all isWhitespace []"
    and letter: "\<not> list_all isWhitespace ''A''"
    by (simp_all add: isWhitespace_def)
  show ?thesis
    using insertImplements_string_precondition [of "'' ''" 0 classPlain] blank
      insertImplements_string_precondition [of "[]" 0 classPlain] empty
      insertImplements_string_precondition [of "''A''" 0 classPlain "''texts''"] letter
    by blast
qed

section \<open>The overloads and the index validation\<close>






lemma removeImplements_argument_accepted:
  assumes "getImplements n \<noteq> []"
    and "\<forall>j. x = ByIndex j \<longrightarrow>
           - (int (length (getImplements n)) - 1) \<le> j \<and> j \<le> int (length (getImplements n)) - 1"
  shows "fst (removeImplements x n) = Inr ()"
  using assms
  by (cases x)
    (auto simp: removeImplements_def implementsNodeToRemove_def getImplementsFromIndex_def
      verifyAndGetIndex_accepts Let_def split: option.splits)







text \<open>
  C5, as stated, fails: with one implements type, \<^verbatim>\<open>removeImplements(3)\<close> throws the index
  error instead of succeeding.
\<close>

theorem removeImplements_outcome_counterexample:
  "getImplements classImplementsOne \<noteq> []
   \<and> removeImplements (ByIndex 3) classImplementsOne = (Inl (InvalidIndexError 3 0), classImplementsOne)"
  by (simp add: removeImplements_def implementsNodeToRemove_def getImplementsFromIndex_def
      verifyAndGetIndex_def getImplements_def getHeritageClauses_def getImplementsOf_def
      getImplementsHeritageClause_def classImplementsOne_def)

text \<open>
  C5, amended. For every node on which \<^verbatim>\<open>getImplements()\<close> is empty, \<^verbatim>\<open>removeImplements\<close>
  (either overload) throws an \<^verbatim>\<open>InvalidOperationError\<close> with the message "Cannot remove an
  implements when none exist." and the node is unchanged; when at least one implements type
  exists and the argument is a node or an index from 0 through count - 1, it succeeds and
  returns this.
\<close>

theorem removeImplements_outcome:
  "(getImplements n = [] \<longrightarrow>
      removeImplements x n
        = (Inl (InvalidOperationError ''Cannot remove an implements when none exist.''), n))
   \<and> (getImplements n \<noteq> []
        \<and> (\<forall>j. x = ByIndex j \<longrightarrow> 0 \<le> j \<and> j \<le> int (length (getImplements n)) - 1)
      \<longrightarrow> fst (removeImplements x n) = Inr ())"
proof -
  have "fst (removeImplements x n) = Inr ()"
    if "getImplements n \<noteq> []"
      and "\<forall>j. x = ByIndex j \<longrightarrow> 0 \<le> j \<and> j \<le> int (length (getImplements n)) - 1"
    using that by (intro removeImplements_argument_accepted) auto
  moreover have "removeImplements x n
      = (Inl (InvalidOperationError ''Cannot remove an implements when none exist.''), n)"
    if "getImplements n = []"
    using that by (simp add: removeImplements_def)
  ultimately show ?thesis
    by blast
qed

theorem removeImplements_outcome_witness:
  "removeImplements (ByIndex 0) classPlain
     = (Inl (InvalidOperationError ''Cannot remove an implements when none exist.''), classPlain)
   \<and> fst (removeImplements (ByIndex 0) classImplementsOne) = Inr ()
   \<and> fst (removeImplements (ByNode \<lparr>typeStart = 19, typeText = ''A''\<rparr>) classImplementsOne) = Inr ()"
proof -
  have none: "getImplements classPlain = []"
    by (simp add: getImplements_def getHeritageClauses_def getImplementsOf_def
        getImplementsHeritageClause_def classPlain_def)
  have one: "getImplements classImplementsOne = [\<lparr>typeStart = 19, typeText = ''A''\<rparr>]"
    by (simp add: getImplements_def getHeritageClauses_def getImplementsOf_def
        getImplementsHeritageClause_def classImplementsOne_def)
  show ?thesis
    using removeImplements_outcome [of classPlain "ByIndex 0"] none
      removeImplements_outcome [of classImplementsOne "ByIndex 0"]
      removeImplements_outcome [of classImplementsOne "ByNode \<lparr>typeStart = 19, typeText = ''A''\<rparr>"] one
    by simp
qed

section \<open>Removing an implements type\<close>

lemma getImplements_nonempty_clause:
  "getImplements n \<noteq> [] \<Longrightarrow> \<exists>c. getImplementsHeritageClause (getHeritageClauses n) = Some c"
  by (auto simp: getImplements_def getImplementsOf_def split: option.splits)

lemma removeChildren_syntaxList_text:
  assumes "hs \<noteq> []"
  shows "fullText (removeChildren n [SyntaxListChild hs] flag)
           = take (if flag then clauseStart (hd hs) - precedingSpaces (fullText n) (clauseStart (hd hs))
                   else clauseStart (hd hs)) (fullText n)
             @ drop (clauseEnd (last hs)) (fullText n)"
  using assms by (simp add: removeChildren_def removeText_def Let_def)

lemma removeChildren_whole_syntaxList:
  "heritageClauses (removeChildren n [SyntaxListChild (heritageClauses n)] flag) = []"
  by (simp add: removeChildren_def removeText_def Let_def)

lemma removeChildren_clause_text:
  "fullText (removeChildren n [HeritageClauseChild c] flag)
     = take (if flag then clauseStart c - precedingSpaces (fullText n) (clauseStart c)
             else clauseStart c) (fullText n)
       @ drop (clauseEnd c) (fullText n)"
  by (simp add: removeChildren_def removeText_def Let_def)

lemma removeChildren_clause_gone:
  "c \<notin> set (filter (\<lambda>d. d \<noteq> c) (heritageClauses n))
   \<and> length (heritageClauses (removeChildren n [HeritageClauseChild c] flag))
       = length (filter (\<lambda>d. d \<noteq> c) (heritageClauses n))"
  by (simp add: removeChildren_def removeText_def Let_def)

lemma getImplements_removeCommaSeparatedChild:
  assumes held: "find (\<lambda>c. target \<in> set (clauseTypes c)) (heritageClauses n)
                  = getImplementsHeritageClause (heritageClauses n)"
    and target: "target \<in> set (getImplements n)"
  shows "map typeText (getImplements (removeCommaSeparatedChild n target flag))
           = map typeText (removeAll target (getImplements n))"
proof -
  from target have some: "getImplements n \<noteq> []" by auto
  obtain c where c: "find (\<lambda>c. token c = ImplementsKeyword) (heritageClauses n) = Some c"
    and old: "getImplements n = clauseTypes c"
    using some
    by (auto simp: getImplements_def getImplementsOf_def getImplementsHeritageClause_def
        getHeritageClauses_def split: option.splits)
  have found: "find (\<lambda>c. target \<in> set (clauseTypes c)) (heritageClauses n) = Some c"
    using held c by (simp add: getImplementsHeritageClause_def)
  define s where "s = removalStart (fullText n) (clauseTypes c) target flag"
  define e where "e = removalEnd (fullText n) (clauseTypes c) target"
  define g where "g = pullClause s e
      \<circ> (\<lambda>d. if d = c then d\<lparr>clauseTypes := removeAll target (clauseTypes c)\<rparr> else d)"
  have edit: "heritageClauses (removeCommaSeparatedChild n target flag) = map g (heritageClauses n)"
    using found by (simp add: removeCommaSeparatedChild_def removeText_def Let_def g_def s_def e_def)
  have tok: "\<And>d. token (g d) = token d"
    by (simp add: g_def pullClause_def)
  have "getImplements (removeCommaSeparatedChild n target flag)
      = map (pullType s e) (removeAll target (clauseTypes c))"
    using c edit find_token_map [of g ImplementsKeyword "heritageClauses n", OF tok]
    by (simp add: getImplements_def getImplementsOf_def getImplementsHeritageClause_def
        getHeritageClauses_def pullClause_def g_def)
  then show ?thesis
    by (simp add: old pullType_def)
qed

lemma fullText_removeCommaSeparatedChild:
  assumes "find (\<lambda>c. target \<in> set (clauseTypes c)) (heritageClauses n) = Some c"
  shows "fullText (removeCommaSeparatedChild n target flag)
           = take (removalStart (fullText n) (clauseTypes c) target flag) (fullText n)
             @ drop (removalEnd (fullText n) (clauseTypes c) target) (fullText n)"
  using assms by (simp add: removeCommaSeparatedChild_def removeText_def Let_def)

text \<open>
  C6. For every node and every accepted argument, removing an implements type handles trivia
  as follows. With exactly one implements type in the only heritage clause, the whole
  heritage-clause syntax list is removed together with the spaces in front of it. With one
  implements type and other heritage clauses, only the implements heritage clause is removed,
  with the spaces in front of it. With several implements types, only the targeted
  comma-separated child is removed, and the spaces in front of it are removed exactly when
  the target is not the first of the list.
\<close>

theorem removeImplements_trivia:
  assumes "implementsNodeToRemove (getImplements n) x = Inr target"
  shows "(length (getImplements n) = 1 \<and> length (getHeritageClauses n) = 1 \<longrightarrow>
            snd (removeImplements x n) = removeChildren n [SyntaxListChild (getHeritageClauses n)] True
            \<and> heritageClauses (snd (removeImplements x n)) = []
            \<and> fullText (snd (removeImplements x n))
                = take (clauseStart (hd (getHeritageClauses n))
                        - precedingSpaces (fullText n) (clauseStart (hd (getHeritageClauses n))))
                    (fullText n)
                  @ drop (clauseEnd (last (getHeritageClauses n))) (fullText n))
       \<and> (length (getImplements n) = 1 \<and> length (getHeritageClauses n) \<noteq> 1 \<longrightarrow>
            (\<exists>c. getImplementsHeritageClause (getHeritageClauses n) = Some c
               \<and> snd (removeImplements x n) = removeChildren n [HeritageClauseChild c] True
               \<and> length (heritageClauses (snd (removeImplements x n)))
                   = length (filter (\<lambda>d. d \<noteq> c) (getHeritageClauses n))
               \<and> fullText (snd (removeImplements x n))
                   = take (clauseStart c - precedingSpaces (fullText n) (clauseStart c)) (fullText n)
                     @ drop (clauseEnd c) (fullText n)))
       \<and> (1 < length (getImplements n) \<longrightarrow>
            snd (removeImplements x n)
              = removeCommaSeparatedChild n target (target \<noteq> hd (getImplements n)))
       \<and> (1 < length (getImplements n) \<and> target \<in> set (getImplements n)
            \<and> find (\<lambda>c. target \<in> set (clauseTypes c)) (getHeritageClauses n)
                = getImplementsHeritageClause (getHeritageClauses n) \<longrightarrow>
            map typeText (getImplements (snd (removeImplements x n)))
              = map typeText (removeAll target (getImplements n))
            \<and> fullText (snd (removeImplements x n))
                = take (removalStart (fullText n) (getImplements n) target
                          (target \<noteq> hd (getImplements n))) (fullText n)
                  @ drop (removalEnd (fullText n) (getImplements n) target) (fullText n))"
proof -
  have whole: "snd (removeImplements x n) = removeChildren n [SyntaxListChild (getHeritageClauses n)] True
        \<and> heritageClauses (snd (removeImplements x n)) = []
        \<and> fullText (snd (removeImplements x n))
            = take (clauseStart (hd (getHeritageClauses n))
                    - precedingSpaces (fullText n) (clauseStart (hd (getHeritageClauses n))))
                (fullText n)
              @ drop (clauseEnd (last (getHeritageClauses n))) (fullText n)"
    if one: "length (getImplements n) = 1 \<and> length (getHeritageClauses n) = 1"
  proof -
    from one have hs: "getHeritageClauses n \<noteq> []" by auto
    have edit: "snd (removeImplements x n)
        = removeChildren n [SyntaxListChild (getHeritageClauses n)] True"
      using assms one by (auto simp: removeImplements_def Let_def)
    show ?thesis
      using edit removeChildren_syntaxList_text [OF hs, of n True]
        removeChildren_whole_syntaxList [of n True]
      by (simp add: getHeritageClauses_def)
  qed
  have clause: "\<exists>c. getImplementsHeritageClause (getHeritageClauses n) = Some c
          \<and> snd (removeImplements x n) = removeChildren n [HeritageClauseChild c] True
          \<and> length (heritageClauses (snd (removeImplements x n)))
              = length (filter (\<lambda>d. d \<noteq> c) (getHeritageClauses n))
          \<and> fullText (snd (removeImplements x n))
              = take (clauseStart c - precedingSpaces (fullText n) (clauseStart c)) (fullText n)
                @ drop (clauseEnd c) (fullText n)"
    if more: "length (getImplements n) = 1 \<and> length (getHeritageClauses n) \<noteq> 1"
  proof -
    from more have "getImplements n \<noteq> []" by auto
    then obtain c where c: "getImplementsHeritageClause (getHeritageClauses n) = Some c"
      using getImplements_nonempty_clause by blast
    have edit: "snd (removeImplements x n) = removeChildren n [HeritageClauseChild c] True"
      using assms more c by (auto simp: removeImplements_def Let_def)
    show ?thesis
      using c edit removeChildren_clause_text [of n c True] removeChildren_clause_gone [of c n True]
      by (simp add: getHeritageClauses_def)
  qed
  have child: "snd (removeImplements x n)
      = removeCommaSeparatedChild n target (target \<noteq> hd (getImplements n))"
    if "1 < length (getImplements n)"
    using assms that by (auto simp: removeImplements_def Let_def)
  have listed: "map typeText (getImplements (snd (removeImplements x n)))
        = map typeText (removeAll target (getImplements n))
      \<and> fullText (snd (removeImplements x n))
          = take (removalStart (fullText n) (getImplements n) target
                    (target \<noteq> hd (getImplements n))) (fullText n)
            @ drop (removalEnd (fullText n) (getImplements n) target) (fullText n)"
    if several: "1 < length (getImplements n) \<and> target \<in> set (getImplements n)
        \<and> find (\<lambda>c. target \<in> set (clauseTypes c)) (getHeritageClauses n)
            = getImplementsHeritageClause (getHeritageClauses n)"
  proof -
    from several have "getImplements n \<noteq> []" by auto
    then obtain c where c: "getImplementsHeritageClause (getHeritageClauses n) = Some c"
      and old: "getImplements n = clauseTypes c"
      by (auto simp: getImplements_def getImplementsOf_def split: option.splits)
    have found: "find (\<lambda>c. target \<in> set (clauseTypes c)) (heritageClauses n) = Some c"
      using several c by (simp add: getHeritageClauses_def)
    have held: "find (\<lambda>c. target \<in> set (clauseTypes c)) (heritageClauses n)
        = getImplementsHeritageClause (heritageClauses n)"
      using several by (simp add: getHeritageClauses_def)
    show ?thesis
      using child several getImplements_removeCommaSeparatedChild [OF held, of "target \<noteq> hd (getImplements n)"]
        fullText_removeCommaSeparatedChild [OF found, of "target \<noteq> hd (getImplements n)"]
      by (simp add: old)
  qed
  show ?thesis
    using whole clause child listed by blast
qed

theorem removeImplements_trivia_witness:
  "fullText (snd (removeImplements (ByIndex 0) classImplementsOne)) = ''class C {}''
   \<and> heritageClauses (snd (removeImplements (ByIndex 0) classImplementsOne)) = []
   \<and> fullText (snd (removeImplements (ByIndex 0) classExtendsImplements)) = ''class C extends B {}''
   \<and> fullText (snd (removeImplements (ByIndex 0) classImplementsThree)) = ''class C implements Bb, Cc {}''
   \<and> fullText (snd (removeImplements (ByIndex 1) classImplementsThree)) = ''class C implements A, Cc {}''
   \<and> fullText (snd (removeImplements (ByNode \<lparr>typeStart = 26, typeText = ''Cc''\<rparr>) classImplementsThree))
       = ''class C implements A, Bb {}''
   \<and> map typeText (getImplements (snd (removeImplements (ByIndex 1) classImplementsThree)))
       = [''A'', ''Cc'']"
proof -
  let ?a = "\<lparr>typeStart = 19, typeText = ''A''\<rparr>"
  let ?b = "\<lparr>typeStart = 22, typeText = ''Bb''\<rparr>"
  let ?c = "\<lparr>typeStart = 26, typeText = ''Cc''\<rparr>"
  have one: "getImplements classImplementsOne = [?a]"
    and two: "getImplements classExtendsImplements = [\<lparr>typeStart = 29, typeText = ''A''\<rparr>]"
    and three: "getImplements classImplementsThree = [?a, ?b, ?c]"
    by (simp_all add: getImplements_def getHeritageClauses_def getImplementsOf_def
        getImplementsHeritageClause_def classImplementsOne_def classExtendsImplements_def
        classImplementsThree_def)
  have t1: "implementsNodeToRemove (getImplements classImplementsOne) (ByIndex 0) = Inr ?a"
    and t2: "implementsNodeToRemove (getImplements classExtendsImplements) (ByIndex 0)
              = Inr \<lparr>typeStart = 29, typeText = ''A''\<rparr>"
    and t3: "implementsNodeToRemove (getImplements classImplementsThree) (ByIndex 0) = Inr ?a"
    and t4: "implementsNodeToRemove (getImplements classImplementsThree) (ByIndex 1) = Inr ?b"
    and t5: "implementsNodeToRemove (getImplements classImplementsThree) (ByNode ?c) = Inr ?c"
    by (simp_all add: one two three implementsNodeToRemove_def getImplementsFromIndex_def
        verifyAndGetIndex_def)
  have h1: "length (getHeritageClauses classImplementsOne) = 1"
    and h2: "length (getHeritageClauses classExtendsImplements) \<noteq> 1"
    by (simp_all add: getHeritageClauses_def classImplementsOne_def classExtendsImplements_def)
  have r1: "fullText (removeChildren classImplementsOne
                [SyntaxListChild (getHeritageClauses classImplementsOne)] True) = ''class C {}''"
    and r1': "heritageClauses (removeChildren classImplementsOne
                [SyntaxListChild (getHeritageClauses classImplementsOne)] True) = []"
    and r2: "\<And>c. getImplementsHeritageClause (getHeritageClauses classExtendsImplements) = Some c
              \<Longrightarrow> fullText (removeChildren classExtendsImplements [HeritageClauseChild c] True)
                  = ''class C extends B {}''"
    and r3: "fullText (removeCommaSeparatedChild classImplementsThree ?a False)
              = ''class C implements Bb, Cc {}''"
    and r4: "fullText (removeCommaSeparatedChild classImplementsThree ?b True)
              = ''class C implements A, Cc {}''"
    and r5: "fullText (removeCommaSeparatedChild classImplementsThree ?c True)
              = ''class C implements A, Bb {}''"
    by (simp_all add: removeChildren_def removeCommaSeparatedChild_def removalStart_def
        removalEnd_def removeText_def precedingSpaces_def followingSpaces_def typeEnd_def clauseEnd_def keywordText_def
        getHeritageClauses_def getImplementsHeritageClause_def
        classImplementsOne_def classExtendsImplements_def classImplementsThree_def Let_def)
  have held: "1 < length (getImplements classImplementsThree)
      \<and> ?b \<in> set (getImplements classImplementsThree)
      \<and> find (\<lambda>c. ?b \<in> set (clauseTypes c)) (getHeritageClauses classImplementsThree)
          = getImplementsHeritageClause (getHeritageClauses classImplementsThree)"
  proof -
    have "find (\<lambda>c. ?b \<in> set (clauseTypes c)) (getHeritageClauses classImplementsThree)
        = getImplementsHeritageClause (getHeritageClauses classImplementsThree)"
      by (simp add: getHeritageClauses_def getImplementsHeritageClause_def
          classImplementsThree_def)
    then show ?thesis
      by (simp add: three)
  qed
  have listed: "map typeText (getImplements (snd (removeImplements (ByIndex 1) classImplementsThree)))
      = [''A'', ''Cc'']"
    using removeImplements_trivia [OF t4, THEN conjunct2, THEN conjunct2, THEN conjunct2] held
    by (simp add: three)
  show ?thesis
    using listed removeImplements_trivia [OF t1] removeImplements_trivia [OF t2]
      removeImplements_trivia [OF t3] removeImplements_trivia [OF t4]
      removeImplements_trivia [OF t5] one two three h1 h2 r1 r1' r2 r3 r4 r5
    by auto
qed

section \<open>Inserting among existing implements types\<close>

subsection \<open>Texts that read as one type each\<close>














subsection \<open>The splice\<close>





section \<open>Inserting the first implements types\<close>

lemma insertImplementsTexts_first:
  assumes none: "getImplements n = []"
    and index: "verifyAndGetIndex index (int (length (getImplements n))) = Inr i"
    and brace: "openBraceToken n = Some p"
  shows "snd (insertImplementsTexts index ts len n)
           = insertIntoCreatableSyntaxList n p (implementsInsertText (fullText n) p ts)
               (if getHeritageClauses n = [] then None else Some (getHeritageClauses n)) 1 1"
  using assms
  by (simp add: insertImplementsTexts_def getImplements_def getOpenBraceStartOrThrow_def Let_def)

text \<open>
  C2, as stated, fails: on a node with no implements types, an empty array edits nothing, an
  index other than 0 throws, and a blank string throws; no text is inserted.
\<close>

theorem insertImplements_first_counterexample:
  "getImplements classPlain = []
   \<and> openBraceToken classPlain = Some 8
   \<and> insertImplements 0 (Multiple []) classPlain = (Inr (ManyNodes []), classPlain)
   \<and> insertImplements 1 (Multiple [''A'']) classPlain = (Inl (InvalidIndexError 1 0), classPlain)
   \<and> insertImplements 0 (Single '' '') classPlain
       = (Inl (ArgumentNullOrWhitespaceError ''texts''), classPlain)
   \<and> fullText classPlain = ''class C {}''"
  by (simp add: insertImplements_def insertImplementsTexts_def verifyAndGetIndex_def
      throwIfNotStringOrWhitespace_def isWhitespace_def getImplements_def getHeritageClauses_def
      getImplementsOf_def getImplementsHeritageClause_def classPlain_def Let_def)

text \<open>
  C2, amended. For every node with no implements types that has an open-brace token, the
  accepted index, and a non-empty array or a string that is not blank,
  \<^verbatim>\<open>insertImplements(index, texts)\<close> inserts the text "implements " followed by the texts
  joined by ", " and a trailing space immediately before the open-brace token, with one more
  space in front exactly when the character before the open brace is not whitespace. When no
  heritage clause exists a new syntax list is created for what the text reads as; otherwise
  that goes into the existing heritage-clause syntax list at child index 1.
\<close>

theorem insertImplements_first:
  assumes none: "getImplements n = []"
    and index: "verifyAndGetIndex index (int (length (getImplements n))) = Inr i"
    and brace: "openBraceToken n = Some p"
    and texts: "(texts = Multiple ts \<and> ts \<noteq> [])
                \<or> (texts = Single s \<and> \<not> list_all isWhitespace s \<and> ts = [s])"
  shows "(let lead = (if 0 < p \<and> p - 1 < length (fullText n) \<and> isWhitespace (fullText n ! (p - 1))
                      then [] else '' '');
              inserted = lead @ ''implements '' @ join '', '' ts @ '' '';
              n' = snd (insertImplements index texts n)
          in n' = insertIntoCreatableSyntaxList n p inserted
                    (if getHeritageClauses n = [] then None else Some (getHeritageClauses n)) 1 1
             \<and> fullText n' = take p (fullText n) @ inserted @ drop p (fullText n)
             \<and> heritageClauses n'
                 = (if getHeritageClauses n = [] then take 1 (parseHeritageClause p inserted)
                    else take 1 (map (shiftClause p (length inserted)) (getHeritageClauses n))
                         @ take 1 (parseHeritageClause p inserted)
                         @ drop 1 (map (shiftClause p (length inserted)) (getHeritageClauses n))))"
proof -
  have run: "snd (insertImplements index texts n) = snd (insertImplementsTexts index ts len n)" for len
    using texts insertImplementsTexts_first [OF none index brace]
    by (auto simp: insertImplements_def throwIfNotStringOrWhitespace_def)
  show ?thesis
    using run [of 0] insertImplementsTexts_first [OF none index brace, of ts 0]
    by (simp add: implementsInsertText_def isLastSpace_def insertIntoCreatableSyntaxList_def
        insertText_def getHeritageClauses_def Let_def)
qed

theorem insertImplements_first_witness:
  "fullText (snd (insertImplements 0 (Multiple [''A'', ''Bb'']) classPlain))
     = ''class C implements A, Bb {}''
   \<and> map (\<lambda>c. (token c, map typeText (clauseTypes c)))
         (heritageClauses (snd (insertImplements 0 (Multiple [''A'', ''Bb'']) classPlain)))
     = [(ImplementsKeyword, [''A'', ''Bb''])]
   \<and> fullText (snd (insertImplements 0 (Single ''A'') classExtends))
     = ''class C extends B implements A {}''
   \<and> map (\<lambda>c. (token c, map typeText (clauseTypes c)))
         (heritageClauses (snd (insertImplements 0 (Single ''A'') classExtends)))
     = [(ExtendsKeyword, [''B'']), (ImplementsKeyword, [''A''])]
   \<and> fullText (snd (insertImplements 0 (Single ''A'') classNoBreakSpace))
     = ''class C'' @ [CHR 0xA0] @ ''implements A {}''"
proof -
  have none: "getImplements classPlain = []" and none': "getImplements classExtends = []"
    and none'': "getImplements classNoBreakSpace = []"
    by (simp_all add: getImplements_def getHeritageClauses_def getImplementsOf_def
        getImplementsHeritageClause_def classPlain_def classExtends_def classNoBreakSpace_def)
  have i: "verifyAndGetIndex 0 (int (length (getImplements classPlain))) = Inr 0"
    and i': "verifyAndGetIndex 0 (int (length (getImplements classExtends))) = Inr 0"
    and i'': "verifyAndGetIndex 0 (int (length (getImplements classNoBreakSpace))) = Inr 0"
    by (simp_all add: verifyAndGetIndex_def)
  have brace: "openBraceToken classPlain = Some 8" and brace': "openBraceToken classExtends = Some 17"
    and brace'': "openBraceToken classNoBreakSpace = Some 8"
    by (simp_all add: classPlain_def classExtends_def classNoBreakSpace_def)
  have many: "(Multiple [''A'', ''Bb''] = Multiple [''A'', ''Bb''] \<and> [''A'', ''Bb''] \<noteq> [])
      \<or> (Multiple [''A'', ''Bb''] = Single [] \<and> \<not> list_all isWhitespace [] \<and> [''A'', ''Bb''] = [[]])"
    by simp
  have single: "(Single ''A'' = Multiple [''A''] \<and> [''A''] \<noteq> [])
      \<or> (Single ''A'' = Single ''A'' \<and> \<not> list_all isWhitespace ''A'' \<and> [''A''] = [''A''])"
    by (simp add: isWhitespace_def)
  have source: "fullText classPlain = ''class C {}''" "getHeritageClauses classPlain = []"
    "fullText classExtends = ''class C extends B{}''"
    "getHeritageClauses classExtends
       = [\<lparr>token = ExtendsKeyword, clauseStart = 8,
           clauseTypes = [\<lparr>typeStart = 16, typeText = ''B''\<rparr>]\<rparr>]"
    "fullText classNoBreakSpace = ''class C'' @ [CHR 0xA0] @ ''{}''"
    "getHeritageClauses classNoBreakSpace = []"
    by (simp_all add: classPlain_def classExtends_def classNoBreakSpace_def getHeritageClauses_def)
  have p1: "parseHeritageClause 8 ''implements A, Bb ''
      = [\<lparr>token = ImplementsKeyword, clauseStart = 8,
          clauseTypes = [\<lparr>typeStart = 19, typeText = ''A''\<rparr>, \<lparr>typeStart = 22, typeText = ''Bb''\<rparr>]\<rparr>]"
    and p2: "parseHeritageClause 17 '' implements A ''
      = [\<lparr>token = ImplementsKeyword, clauseStart = 18,
          clauseTypes = [\<lparr>typeStart = 29, typeText = ''A''\<rparr>]\<rparr>]"
    by (simp_all add: parseHeritageClause_def trimRight_def isWhitespace_def opensBracket_def
        closesBracket_def Let_def)
  show ?thesis
    using insertImplements_first [OF none i brace many, unfolded Let_def, THEN conjunct2]
      insertImplements_first [OF none' i' brace' single, unfolded Let_def, THEN conjunct2]
      insertImplements_first [OF none'' i'' brace'' single, unfolded Let_def, THEN conjunct2, THEN conjunct1]
    by (simp add: source p1 p2 isWhitespace_def shiftClause_def shiftType_def shiftFrom_def Let_def)
qed


section \<open>Printing a get accessor\<close>

text \<open>
  C7. For every get-accessor structure, \<^verbatim>\<open>printText\<close> writes the pieces in this fixed
  order behind what the writer holds: the documentation comments, the decorators, the
  modifiers, the text "get " and the name, the type parameters in brackets, "(", the
  parameters, ")", the return type, and last the body or the terminator. No piece changes
  place or is left out.
\<close>

theorem printText_order:
  "printText factory options writer structure
     = writer
       @ forJSDoc_printDocs factory (docs structure)
       @ forDecorator_printTexts factory (decorators structure)
       @ forModifierableNode_printText factory structure
       @ ''get '' @ name structure
       @ forTypeParameterDeclaration_printTextsWithBrackets factory (typeParameters structure)
       @ ''(''
       @ forParameterDeclaration_printTexts factory (parameters structure)
       @ '')''
       @ forReturnTypedNode_printText factory structure
       @ (if isAmbient options \<or> isAbstract structure then '';''
          else let returnType = forReturnTypedNode_printText factory structure;
                   body = indentLines True (forBodyText_printText factory options structure)
               in (if last ('')'' @ returnType) = CHR '' '' then [] else '' '')
                  @ ''{'' @ [CHR 0x0A] @ body
                  @ (if body = [] \<or> last body = CHR 0x0A then [] else [CHR 0x0A])
                  @ ''}'')"
  by (simp add: printText_def writeText_def inlineBlock_def spaceIfLastNot_def
      newLineIfLastNot_def Let_def)

theorem printText_order_witness:
  "printText exampleFactory \<lparr>isAmbient = False\<rparr> [] exampleGetter
     = ''/** d */'' @ [CHR 0x0A] @ ''@dec'' @ [CHR 0x0A] @ ''get x(): number {'' @ [CHR 0x0A]
       @ ''    return 1;'' @ [CHR 0x0A] @ ''}''
   \<and> printText exampleFactory \<lparr>isAmbient = False\<rparr> [] exampleAbstractGetter
     = ''abstract get x<T>(): number;''"
  using printText_order [of exampleFactory "\<lparr>isAmbient = False\<rparr>" "[]" exampleGetter]
    printText_order [of exampleFactory "\<lparr>isAmbient = False\<rparr>" "[]" exampleAbstractGetter]
  by (simp add: exampleFactory_def exampleGetter_def exampleAbstractGetter_def)

text \<open>
  C8. For every get-accessor structure, \<^verbatim>\<open>printText\<close> ends the declaration with a
  semicolon and writes no body block if and only if the printer's \<^verbatim>\<open>isAmbient\<close> or the
  structure's \<^verbatim>\<open>isAbstract\<close> is true; otherwise it writes an inline block, with a space in
  front when the last character written is not one, that holds the printed body text.
\<close>

theorem printText_body_or_terminator:
  "(let head = writer
         @ forJSDoc_printDocs factory (docs structure)
         @ forDecorator_printTexts factory (decorators structure)
         @ forModifierableNode_printText factory structure
         @ ''get '' @ name structure
         @ forTypeParameterDeclaration_printTextsWithBrackets factory (typeParameters structure)
         @ ''(''
         @ forParameterDeclaration_printTexts factory (parameters structure)
         @ '')''
         @ forReturnTypedNode_printText factory structure;
        body = indentLines True (forBodyText_printText factory options structure);
        printed = printText factory options writer structure
    in (last printed = CHR '';'' \<longleftrightarrow> isAmbient options \<or> isAbstract structure)
       \<and> (isAmbient options \<or> isAbstract structure \<longrightarrow> printed = head @ '';'')
       \<and> (\<not> (isAmbient options \<or> isAbstract structure) \<longrightarrow>
            printed = (if last head = CHR '' '' then head else head @ '' '')
                      @ ''{'' @ [CHR 0x0A] @ body
                      @ (if body = [] \<or> last body = CHR 0x0A then [] else [CHR 0x0A])
                      @ ''}''))"
  by (simp add: printText_def writeText_def inlineBlock_def spaceIfLastNot_def
      newLineIfLastNot_def Let_def)

theorem printText_body_or_terminator_witness:
  "last (printText exampleFactory \<lparr>isAmbient = True\<rparr> ''  '' exampleGetter) = CHR '';''
   \<and> last (printText exampleFactory \<lparr>isAmbient = False\<rparr> ''  '' exampleAbstractGetter) = CHR '';''
   \<and> printText exampleFactory \<lparr>isAmbient = False\<rparr> [] exampleGetter
     = ''/** d */'' @ [CHR 0x0A] @ ''@dec'' @ [CHR 0x0A] @ ''get x(): number''
       @ '' {'' @ [CHR 0x0A] @ ''    return 1;'' @ [CHR 0x0A] @ ''}''"
  using printText_body_or_terminator [of "''  ''" exampleFactory exampleGetter "\<lparr>isAmbient = True\<rparr>"]
    printText_body_or_terminator [of "''  ''" exampleFactory exampleAbstractGetter "\<lparr>isAmbient = False\<rparr>"]
    printText_body_or_terminator [of "[]" exampleFactory exampleGetter "\<lparr>isAmbient = False\<rparr>"]
  by (simp add: exampleFactory_def exampleGetter_def exampleAbstractGetter_def Let_def)

end
